theory Spec2Isabelle
  imports Complex_Main
begin

section \<open>Python strings\<close>

text \<open>
  Strings are lists of characters. The operations below are the ones the checker uses on
  \<open>str\<close>: \<open>lower()\<close>, \<open>strip()\<close>, \<open>startswith\<close> and the substring test \<open>in\<close>.
  Case folding and the character classes are the ASCII ones; a character outside ASCII is
  neither a letter, a digit nor white space, and \<open>lower\<close> leaves it as it is.
\<close>

definition lower_char :: "char \<Rightarrow> char" where
  "lower_char c =
     (case map_of (zip ''ABCDEFGHIJKLMNOPQRSTUVWXYZ'' ''abcdefghijklmnopqrstuvwxyz'') c of
        None \<Rightarrow> c
      | Some l \<Rightarrow> l)"

definition lower :: "string \<Rightarrow> string" where
  "lower s = map lower_char s"

definition is_space :: "char \<Rightarrow> bool" where
  "is_space c = (c \<in> set [CHR 0x09, CHR 0x0A, CHR 0x0B, CHR 0x0C, CHR 0x0D,
                            CHR 0x1C, CHR 0x1D, CHR 0x1E, CHR 0x1F, CHR 0x20])"

definition is_digit :: "char \<Rightarrow> bool" where
  "is_digit c = (c \<in> set ''0123456789'')"

definition is_alpha :: "char \<Rightarrow> bool" where
  "is_alpha c = (c \<in> set ''abcdefghijklmnopqrstuvwxyzABCDEFGHIJKLMNOPQRSTUVWXYZ'')"

definition strip :: "string \<Rightarrow> string" where
  "strip s = rev (dropWhile is_space (rev (dropWhile is_space s)))"

fun starts_with :: "string \<Rightarrow> string \<Rightarrow> bool" where
  "starts_with [] s = True"
| "starts_with (p # ps) [] = False"
| "starts_with (p # ps) (c # cs) = (p = c \<and> starts_with ps cs)"

text \<open>\<open>str_in sub s\<close> is Python's \<open>sub in s\<close>.\<close>

fun str_in :: "string \<Rightarrow> string \<Rightarrow> bool" where
  "str_in sub [] = (sub = [])"
| "str_in sub (c # cs) = (starts_with sub (c # cs) \<or> str_in sub cs)"

text \<open>\<open>str_nat n\<close> is \<open>str(n)\<close> for a non-negative integer.\<close>

fun str_nat :: "nat \<Rightarrow> string" where
  "str_nat n =
     (if n < 10 then [''0123456789'' ! n]
      else str_nat (n div 10) @ [''0123456789'' ! (n mod 10)])"

section \<open>The regular expressions of the date extraction\<close>

text \<open>
  The patterns of \<open>_extract_shipping_date\<close> and \<open>_check_stock_status\<close> are built from
  literals, character classes with a greedy repetition, sequence and alternation. They are
  all compiled with \<open>re.IGNORECASE\<close>, so a literal is compared after case folding.
  \<open>rx_match r s\<close> lists what is left of \<open>s\<close> after each way \<open>r\<close> matches a prefix of it, in
  the order in which a backtracking matcher tries them.
\<close>

datatype rx =
    Lit string
  | Plus "char \<Rightarrow> bool"
  | Rep "char \<Rightarrow> bool" nat nat
  | Seq rx rx
  | Alt rx rx

fun rx_match :: "rx \<Rightarrow> string \<Rightarrow> string list" where
  "rx_match (Lit l) s = (if starts_with (lower l) (lower s) then [drop (length l) s] else [])"
| "rx_match (Plus p) s = map (\<lambda>j. drop j s) (rev [1 ..< Suc (length (takeWhile p s))])"
| "rx_match (Rep p m n) s =
     map (\<lambda>j. drop j s) (rev [m ..< Suc (min n (length (takeWhile p s)))])"
| "rx_match (Seq a b) s = concat (map (rx_match b) (rx_match a s))"
| "rx_match (Alt a b) s = rx_match a s @ rx_match b s"

text \<open>
  Every pattern has the shape \<open>prefix(group)\<close>. \<open>match_group pre grp s\<close> is group 1 of the
  first match that starts at the head of \<open>s\<close>, and \<open>re_search\<close> is
  \<open>re.search(pattern, s)\<close> followed by \<open>.group(1)\<close>: the leftmost start position wins.
\<close>

definition match_group :: "rx \<Rightarrow> rx \<Rightarrow> string \<Rightarrow> string option" where
  "match_group pre grp s =
     (case concat (map (\<lambda>r. map (\<lambda>r'. take (length r - length r') r) (rx_match grp r))
                       (rx_match pre s)) of
        [] \<Rightarrow> None
      | g # _ \<Rightarrow> Some g)"

fun re_search :: "rx \<Rightarrow> rx \<Rightarrow> string \<Rightarrow> string option" where
  "re_search pre grp [] = match_group pre grp []"
| "re_search pre grp (c # cs) =
     (case match_group pre grp (c # cs) of
        Some g \<Rightarrow> Some g
      | None \<Rightarrow> re_search pre grp cs)"

text \<open>\<open>[A-Za-z]+\s+\d{1,2},\s+\d{4}\<close>\<close>

definition date_rx :: rx where
  "date_rx =
     Seq (Plus is_alpha) (Seq (Plus is_space) (Seq (Rep is_digit 1 2)
       (Seq (Lit '','') (Seq (Plus is_space) (Rep is_digit 4 4)))))"

text \<open>\<open>ship\s+from\s+\<close>, \<open>coming\s+soon\s+on\s+\<close>, \<open>available\s+\<close> and
  \<open>(?:ship|ships)\s+from\s+\<close>\<close>

definition ship_pattern :: rx where
  "ship_pattern = Seq (Lit ''ship'') (Seq (Plus is_space) (Seq (Lit ''from'') (Plus is_space)))"

definition coming_pattern :: rx where
  "coming_pattern =
     Seq (Lit ''coming'') (Seq (Plus is_space) (Seq (Lit ''soon'') (Seq (Plus is_space)
       (Seq (Lit ''on'') (Plus is_space)))))"

definition available_pattern :: rx where
  "available_pattern = Seq (Lit ''available'') (Plus is_space)"

definition ships_pattern :: rx where
  "ships_pattern =
     Seq (Alt (Lit ''ship'') (Lit ''ships'')) (Seq (Plus is_space) (Seq (Lit ''from'')
       (Plus is_space)))"

section \<open>The parsed document\<close>

text \<open>
  The checker never walks the document tree itself: it asks BeautifulSoup a fixed set of
  questions. A parsed document is the record of the answers.
  \<^item> \<open>get_text\<close>: \<open>soup.get_text()\<close>;
  \<^item> \<open>sticky_container\<close>: \<open>soup.find('div', {'data-test': 'add-to-bag-sticky-container'})\<close>,
    \<open>None\<close> when there is no such element, otherwise the buttons
    \<open>find_all('button')\<close> finds inside it, in document order;
  \<^item> \<open>availability_meta\<close>: \<open>soup.find('meta', {'property': 'product:availability'})\<close>,
    \<open>None\<close> when there is no such tag, otherwise its \<open>content\<close> attribute, if it has one;
  \<^item> \<open>select_one sel\<close>: \<open>soup.select_one(sel)\<close>, \<open>None\<close> when nothing matches, otherwise
    \<open>get_text(strip=True)\<close> of the element;
  \<^item> \<open>a_hrefs\<close>: the \<open>href\<close> of every element of \<open>soup.find_all('a', href=True)\<close>.

  A button is \<open>get_text(separator=' ', strip=True)\<close> and its attributes
  \<open>aria-label\<close> and \<open>data-test\<close>.
\<close>

record button =
  button_text :: string
  aria_label :: "string option"
  data_test :: "string option"

record soup =
  get_text :: string
  sticky_container :: "button list option"
  availability_meta :: "string option option"
  select_one :: "string \<Rightarrow> string option"
  a_hrefs :: "string list"

text \<open>\<open>attr_get a d\<close> is \<open>tag.get(name, d)\<close> for the attribute \<open>a\<close>.\<close>

definition attr_get :: "string option \<Rightarrow> string \<Rightarrow> string" where
  "attr_get a d = (case a of None \<Rightarrow> d | Some v \<Rightarrow> v)"

section \<open>The stock result\<close>

datatype stock_status = in_stock | out_of_stock | pre_order | unknown | error

record classification =
  available :: bool
  status :: stock_status
  message :: string
  button_detected :: "string option"

record stock_result = classification +
  set_name :: string
  price :: "string option"
  url :: string

section \<open>The status classifier\<close>

definition extract_shipping_date :: "soup \<Rightarrow> string option" where
  "extract_shipping_date sp =
     (let page_text = get_text sp in
      case re_search ship_pattern date_rx page_text of
        Some d \<Rightarrow> Some (''Ships from '' @ d)
      | None \<Rightarrow>
     (case re_search coming_pattern date_rx page_text of
        Some d \<Rightarrow> Some (''Available '' @ d)
      | None \<Rightarrow>
     (case re_search available_pattern date_rx page_text of
        Some d \<Rightarrow> Some (''Available '' @ d)
      | None \<Rightarrow> None)))"

definition skip_keywords :: "string list" where
  "skip_keywords = [''wishlist'', ''close'', ''cancel'', ''dismiss'', ''x'']"

definition purchase_keywords :: "string list" where
  "purchase_keywords =
     [''add to bag'', ''add to cart'', ''pre-order'', ''preorder'', ''buy'', ''purchase'']"

text \<open>The loop over the buttons of the container in \<open>_detect_button\<close>.\<close>

fun detect_loop :: "button list \<Rightarrow> string option" where
  "detect_loop [] = None"
| "detect_loop (b # buttons) =
     (let text = button_text b;
          button_aria = attr_get (aria_label b) '''';
          button_data_test = attr_get (data_test b) '''';
          button_text_lower = (if text \<noteq> [] then lower text else '''');
          button_aria_lower = (if button_aria \<noteq> [] then lower button_aria else '''');
          button_data_test_lower =
            (if button_data_test \<noteq> [] then lower button_data_test else '''')
      in if list_ex (\<lambda>keyword. str_in keyword button_text_lower
                                  \<or> str_in keyword button_aria_lower) skip_keywords
         then detect_loop buttons
         else if list_ex (\<lambda>keyword. str_in keyword button_text_lower) purchase_keywords
                 \<or> list_ex (\<lambda>keyword. str_in keyword button_aria_lower) purchase_keywords
                 \<or> str_in ''add-to-cart'' button_data_test_lower
         then (if text \<noteq> [] \<and> length text > 0 then Some text
               else if button_aria \<noteq> [] then Some button_aria
               else detect_loop buttons)
         else detect_loop buttons)"

definition detect_button :: "soup \<Rightarrow> string option" where
  "detect_button sp =
     (case sticky_container sp of
        None \<Rightarrow> None
      | Some buttons \<Rightarrow> if buttons = [] then None else detect_loop buttons)"

text \<open>
  \<open>_check_stock_status\<close> in three parts: the block under \<open>if availability_meta:\<close>
  (\<open>None\<close> when none of its branches returns), the fallback on the page text, and the
  function itself.
\<close>

definition meta_tier :: "soup \<Rightarrow> string option \<Rightarrow> string option \<Rightarrow> classification option" where
  "meta_tier sp content_attr button =
     (let availability_content = lower (attr_get content_attr '''') in
      if str_in ''in stock'' availability_content \<or> str_in ''instock'' availability_content
      then Some \<lparr>available = True, status = in_stock, message = ''In Stock'',
                  button_detected = button\<rparr>
      else if str_in ''out of stock'' availability_content
              \<or> str_in ''outofstock'' availability_content
              \<or> str_in ''oos'' availability_content
      then Some \<lparr>available = False, status = out_of_stock, message = ''Out of Stock'',
                  button_detected = button\<rparr>
      else if str_in ''preorder'' availability_content
              \<or> str_in ''pre-order'' availability_content
              \<or> str_in ''preorder'' availability_content
      then Some \<lparr>available = False, status = pre_order,
                  message =
                    (case extract_shipping_date sp of
                       Some shipping_info \<Rightarrow> ''Pre-Order - '' @ shipping_info
                     | None \<Rightarrow> ''Pre-Order Available''),
                  button_detected = button\<rparr>
      else if str_in ''backorder'' availability_content
      then Some \<lparr>available = False, status = out_of_stock, message = ''Backorder'',
                  button_detected = button\<rparr>
      else None)"

definition text_tier :: "soup \<Rightarrow> string option \<Rightarrow> classification" where
  "text_tier sp button =
     (let page_text = lower (get_text sp) in
      if str_in ''pre-order'' page_text \<or> str_in ''preorder'' page_text
      then \<lparr>available = False, status = pre_order,
             message =
               (case extract_shipping_date sp of
                  Some shipping_info \<Rightarrow> ''Pre-Order - '' @ shipping_info
                | None \<Rightarrow>
                    if str_in ''ship from'' page_text \<or> str_in ''ships from'' page_text
                    then (case re_search ships_pattern date_rx page_text of
                            Some d \<Rightarrow> ''Pre-Order - Ships from '' @ d
                          | None \<Rightarrow> ''Pre-Order Available'')
                    else ''Pre-Order Available''),
             button_detected = button\<rparr>
      else if str_in ''coming soon'' page_text
      then \<lparr>available = False, status = pre_order,
             message =
               (case extract_shipping_date sp of
                  Some shipping_info \<Rightarrow> ''Coming Soon - '' @ shipping_info
                | None \<Rightarrow> ''Coming Soon''),
             button_detected = button\<rparr>
      else if str_in ''available now'' page_text
      then \<lparr>available = True, status = in_stock, message = ''In Stock'',
             button_detected = button\<rparr>
      else if list_ex (\<lambda>keyword. str_in keyword page_text)
                [''out of stock'', ''sold out'', ''unavailable'', ''temporarily out of stock'']
      then \<lparr>available = False, status = out_of_stock, message = ''Out of Stock'',
             button_detected = button\<rparr>
      else if list_ex (\<lambda>keyword. str_in keyword page_text)
                [''in stock'', ''add to cart'', ''add to bag'']
      then \<lparr>available = True, status = in_stock, message = ''In Stock'',
             button_detected = button\<rparr>
      else \<lparr>available = False, status = unknown, message = ''Status Unknown'',
             button_detected = button\<rparr>)"

definition check_stock_status :: "soup \<Rightarrow> classification" where
  "check_stock_status sp =
     (let button = detect_button sp in
      case availability_meta sp of
        None \<Rightarrow> text_tier sp button
      | Some content_attr \<Rightarrow>
          (case meta_tier sp content_attr button of
             Some r \<Rightarrow> r
           | None \<Rightarrow> text_tier sp button))"

section \<open>The web, exceptions and the state of the checker\<close>

text \<open>
  A raised exception \<open>e\<close> is the value \<open>Exn (str(e))\<close>; these are the exceptions that
  \<open>except Exception\<close> catches. An operation that can raise
  returns \<open>Inl\<close> of the exception or \<open>Inr\<close> of its result, together with the state it
  leaves behind: what a \<open>try\<close> block did before it raised is not undone.

  The web is a parameter. \<open>web n u\<close> is what the \<open>n\<close>-th HTTP request of a run does when
  it goes to \<open>u\<close>: how long it takes, and whether \<open>session.get\<close> raises or returns a
  response. A response carries its status code, the reason phrase and final URL that
  \<open>raise_for_status\<close> prints, and the outcome of
  \<open>BeautifulSoup(response.content, 'html.parser')\<close>.
\<close>

datatype exn = Exn string

record response =
  status_code :: nat
  reason :: string
  response_url :: string
  content :: "exn + soup"

record reply =
  duration :: real
  outcome :: "exn + response"

type_synonym web = "nat \<Rightarrow> string \<Rightarrow> reply"

text \<open>
  The checker keeps \<open>rate_limit_delay\<close>, \<open>last_request_time\<close> and \<open>session\<close> (here the
  number of scrapers created so far). \<open>now\<close> is the clock that \<open>time.time()\<close> reads; only
  requests and \<open>time.sleep\<close> let it advance. \<open>requests\<close> is the log of the HTTP requests
  made so far, each with the call site that issued it and its start and end time.
\<close>

datatype purpose = Warmup | ProductPage | Search

record request =
  purpose :: purpose
  request_url :: string
  started :: real
  finished :: real
  answer :: "exn + response"

record checker =
  rate_limit_delay :: real
  last_request_time :: real
  session :: nat
  now :: real
  requests :: "request list"

type_synonym 'a io = "checker \<Rightarrow> (exn + 'a) \<times> checker"

definition BASE_URL :: string where
  "BASE_URL = ''https://www.lego.com''"

text \<open>\<open>self.session.get(u, timeout=15)\<close>\<close>

definition session_get :: "web \<Rightarrow> purpose \<Rightarrow> string \<Rightarrow> response io" where
  "session_get web p u w =
     (let r = web (length (requests w)) u;
          t = now w + duration r
      in (outcome r,
          w\<lparr>now := t,
            requests := requests w @ [\<lparr>purpose = p, request_url = u, started = now w,
                                       finished = t, answer = outcome r\<rparr>]\<rparr>))"

text \<open>
  \<open>response.raise_for_status()\<close> of the requests library: the exception it raises, if any.
\<close>

definition raise_for_status :: "response \<Rightarrow> exn option" where
  "raise_for_status r =
     (if 400 \<le> status_code r \<and> status_code r < 500
      then Some (Exn (str_nat (status_code r) @ '' Client Error: '' @ reason r
                        @ '' for url: '' @ response_url r))
      else if 500 \<le> status_code r \<and> status_code r < 600
      then Some (Exn (str_nat (status_code r) @ '' Server Error: '' @ reason r
                        @ '' for url: '' @ response_url r))
      else None)"

text \<open>\<open>time.sleep\<close> raises \<open>ValueError\<close> on a negative argument.\<close>

definition time_sleep :: "real \<Rightarrow> unit io" where
  "time_sleep secs w =
     (if secs < 0 then (Inl (Exn ''sleep length must be non-negative''), w)
      else (Inr (), w\<lparr>now := now w + secs\<rparr>))"

section \<open>The stock checker\<close>

definition initialize_session :: "web \<Rightarrow> unit io" where
  "initialize_session web w =
     (case session_get web Warmup BASE_URL w of
        (Inl e, w1) \<Rightarrow> (Inr (), w1)
      | (Inr r, w1) \<Rightarrow> (Inr (), w1))"

text \<open>
  \<open>cloudscraper.create_scraper(...)\<close> stored in \<open>self.session\<close>. Creating a scraper
  makes no request and does not fail.
\<close>

definition create_scraper :: "checker \<Rightarrow> checker" where
  "create_scraper w = w\<lparr>session := Suc (session w)\<rparr>"

text \<open>\<open>LEGOChecker(rate_limit_delay)\<close>, constructed when the clock shows \<open>t\<close>\<close>

definition new_checker :: "web \<Rightarrow> real \<Rightarrow> real \<Rightarrow> checker" where
  "new_checker web delay t =
     snd (initialize_session web
            (create_scraper \<lparr>rate_limit_delay = delay, last_request_time = 0, session = 0,
                             now = t, requests = []\<rparr>))"

definition rate_limit :: "unit io" where
  "rate_limit w =
     (let current_time = now w;
          time_since_last = current_time - last_request_time w
      in case (if time_since_last < rate_limit_delay w
               then time_sleep (rate_limit_delay w - time_since_last) w
               else (Inr (), w)) of
           (Inl e, w1) \<Rightarrow> (Inl e, w1)
         | (Inr u, w1) \<Rightarrow> (Inr (), w1\<lparr>last_request_time := now w1\<rparr>))"

definition get_product_urls :: "string \<Rightarrow> string list" where
  "get_product_urls set_code =
     [BASE_URL @ ''/en-us/product/'' @ set_code,
      BASE_URL @ ''/en-us/product/lego-set-'' @ set_code,
      BASE_URL @ ''/product/'' @ set_code]"

fun extract_set_name_loop :: "soup \<Rightarrow> string list \<Rightarrow> string option" where
  "extract_set_name_loop sp [] = None"
| "extract_set_name_loop sp (selector # selectors) =
     (case select_one sp selector of
        Some name \<Rightarrow>
          if name \<noteq> [] \<and> length name > 0 then Some name
          else extract_set_name_loop sp selectors
      | None \<Rightarrow> extract_set_name_loop sp selectors)"

definition extract_set_name :: "soup \<Rightarrow> string \<Rightarrow> string" where
  \<open>extract_set_name sp set_code =
     (case extract_set_name_loop sp
             [''h1[data-test="product-overview-name"]'', ''h1.product-overview__name'',
              ''h1'', ''[data-test="product-title"]'', ''.product-title''] of
        Some name \<Rightarrow> name
      | None \<Rightarrow> ''LEGO Set '' @ set_code)\<close>

text \<open>The euro and pound signs are their UTF-8 bytes.\<close>

fun extract_price_loop :: "soup \<Rightarrow> string list \<Rightarrow> string option" where
  "extract_price_loop sp [] = None"
| "extract_price_loop sp (selector # selectors) =
     (case select_one sp selector of
        Some p \<Rightarrow>
          if p \<noteq> [] \<and> (str_in ''$'' p \<or> str_in [CHR 0xE2, CHR 0x82, CHR 0xAC] p
                          \<or> str_in [CHR 0xC2, CHR 0xA3] p)
          then Some p
          else extract_price_loop sp selectors
      | None \<Rightarrow> extract_price_loop sp selectors)"

definition extract_price :: "soup \<Rightarrow> string option" where
  \<open>extract_price sp =
     extract_price_loop sp
       [''[data-test="product-price"]'', ''.product-price'', ''.price'',
        ''[class*="price"]'']\<close>

text \<open>
  The \<open>try\<close> block of \<open>_fetch_product_page\<close>, in two parts: the request, with a fresh
  session and one more request when the answer is a 403; then what the block does with
  the response it is left with.
\<close>

definition get_with_retry :: "web \<Rightarrow> string \<Rightarrow> response io" where
  "get_with_retry web page_url w =
     (case session_get web ProductPage page_url w of
        (Inl e, w1) \<Rightarrow> (Inl e, w1)
      | (Inr response, w1) \<Rightarrow>
          if status_code response = 403
          then (case initialize_session web (create_scraper w1) of
                  (Inl e, w2) \<Rightarrow> (Inl e, w2)
                | (Inr u, w2) \<Rightarrow> session_get web ProductPage page_url w2)
          else (Inr response, w1))"

definition read_response :: "string \<Rightarrow> string \<Rightarrow> response \<Rightarrow> exn + stock_result" where
  "read_response page_url set_code response =
     (case raise_for_status response of
        Some e \<Rightarrow> Inl e
      | None \<Rightarrow>
     (case content response of
        Inl e \<Rightarrow> Inl e
      | Inr sp \<Rightarrow>
          (let stock_status = check_stock_status sp
           in Inr \<lparr>available = available stock_status,
                   status = status stock_status,
                   message = message stock_status,
                   button_detected = button_detected stock_status,
                   set_name = extract_set_name sp set_code,
                   price = extract_price sp,
                   url = page_url\<rparr>)))"

definition fetch_try :: "web \<Rightarrow> string \<Rightarrow> string \<Rightarrow> stock_result io" where
  "fetch_try web page_url set_code w =
     (case get_with_retry web page_url w of
        (Inl e, w1) \<Rightarrow> (Inl e, w1)
      | (Inr response, w1) \<Rightarrow> (read_response page_url set_code response, w1))"

definition fetch_product_page :: "web \<Rightarrow> string \<Rightarrow> string \<Rightarrow> stock_result io" where
  "fetch_product_page web page_url set_code w =
     (case rate_limit w of
        (Inl e, w1) \<Rightarrow> (Inl e, w1)
      | (Inr u, w1) \<Rightarrow>
     (case fetch_try web page_url set_code w1 of
        (Inr result, w2) \<Rightarrow> (Inr result, w2)
      | (Inl (Exn error_msg), w2) \<Rightarrow>
          if str_in ''403'' error_msg \<or> str_in ''Forbidden'' error_msg
          then (Inr \<lparr>available = False, status = error,
                     message = ''403 Forbidden: LEGO.com is blocking automated requests. Please try again later.'',
                     button_detected = None,
                     set_name = ''Set '' @ set_code, price = None, url = page_url\<rparr>, w2)
          else (Inr \<lparr>available = False, status = error,
                     message = ''Error fetching product page: '' @ error_msg,
                     button_detected = None,
                     set_name = ''Set '' @ set_code, price = None, url = page_url\<rparr>, w2)))"

text \<open>The loop over the links of the search page in \<open>_search_for_set\<close>.\<close>

fun product_link :: "string \<Rightarrow> string list \<Rightarrow> string option" where
  "product_link set_code [] = None"
| "product_link set_code (href # hrefs) =
     (if str_in ''/en-us/product/'' href \<and> str_in set_code href
      then (if starts_with ''/'' href then Some (BASE_URL @ href) else Some href)
      else product_link set_code hrefs)"

definition search_try :: "web \<Rightarrow> string \<Rightarrow> string option io" where
  "search_try web set_code w =
     (let search_url = BASE_URL @ ''/en-us/search?q='' @ set_code
      in case session_get web Search search_url w of
           (Inl e, w1) \<Rightarrow> (Inl e, w1)
         | (Inr response, w1) \<Rightarrow>
        (case raise_for_status response of
           Some e \<Rightarrow> (Inl e, w1)
         | None \<Rightarrow>
        (case content response of
           Inl e \<Rightarrow> (Inl e, w1)
         | Inr sp \<Rightarrow> (Inr (product_link set_code (a_hrefs sp)), w1))))"

definition search_for_set :: "web \<Rightarrow> string \<Rightarrow> string option io" where
  "search_for_set web set_code w =
     (case rate_limit w of
        (Inl e, w1) \<Rightarrow> (Inl e, w1)
      | (Inr u, w1) \<Rightarrow>
     (case search_try web set_code w1 of
        (Inl e, w2) \<Rightarrow> (Inr None, w2)
      | (Inr found, w2) \<Rightarrow> (Inr found, w2)))"

text \<open>
  The loop over the candidate URLs in \<open>check_stock\<close>: \<open>Some\<close> of the result the loop
  returns, or \<open>None\<close> when it runs to its end.
\<close>

fun try_urls :: "web \<Rightarrow> string \<Rightarrow> string list \<Rightarrow> stock_result option io" where
  "try_urls web set_code [] w = (Inr None, w)"
| "try_urls web set_code (product_url # urls) w =
     (case fetch_product_page web product_url set_code w of
        (Inl e, w1) \<Rightarrow> (Inl e, w1)
      | (Inr result, w1) \<Rightarrow>
          if status result \<noteq> error then (Inr (Some result), w1)
          else if str_in ''403'' (message result) \<or> str_in ''Forbidden'' (message result)
          then try_urls web set_code urls w1
          else try_urls web set_code urls w1)"

definition check_stock :: "web \<Rightarrow> string \<Rightarrow> stock_result io" where
  "check_stock web code w =
     (let set_code = strip code;
          urls = get_product_urls set_code;
          failed =
            \<lparr>available = False, status = error,
             message = ''Unable to access LEGO.com. The site may be blocking automated requests. Please try again later or check the set code.'',
             button_detected = None,
             set_name = ''Set '' @ set_code, price = None,
             url = (case urls of first # rest \<Rightarrow> first
                    | [] \<Rightarrow> BASE_URL @ ''/en-us/product/'' @ set_code)\<rparr>
      in case try_urls web set_code urls w of
           (Inl e, w1) \<Rightarrow> (Inl e, w1)
         | (Inr (Some result), w1) \<Rightarrow> (Inr result, w1)
         | (Inr None, w1) \<Rightarrow>
        (case search_for_set web set_code w1 of
           (Inl e, w2) \<Rightarrow> (Inl e, w2)
         | (Inr None, w2) \<Rightarrow> (Inr failed, w2)
         | (Inr (Some search_url), w2) \<Rightarrow>
             if search_url \<noteq> []
             then (case fetch_product_page web search_url set_code w2 of
                     (Inl e, w3) \<Rightarrow> (Inl e, w3)
                   | (Inr result, w3) \<Rightarrow>
                       if status result \<noteq> error then (Inr result, w3)
                       else (Inr failed, w3))
             else (Inr failed, w2)))"

section \<open>The watch repository\<close>

text \<open>
  The table \<open>watched_sets\<close> with its rows in insertion order and the counter behind
  \<open>AUTOINCREMENT\<close>. The status column holds what \<open>update_watch_status\<close> wrote, \<open>None\<close>
  is SQL's \<open>NULL\<close>. Failures of the database itself (which the repository logs and turns
  into \<open>False\<close> or a no-op) are outside the model.
\<close>

record watched_set =
  watch_id :: nat
  user_id :: int
  guild_id :: "int option"
  watch_set_code :: string
  last_status :: "stock_status option"
  last_button_detected :: "string option"
  last_checked :: "real option"
  created_at :: real

record database =
  watched_sets :: "watched_set list"
  last_rowid :: nat

text \<open>The tables as \<open>initialize\<close> creates them in a new file: no rows yet.\<close>

definition initialize :: database where
  "initialize = \<lparr>watched_sets = [], last_rowid = 0\<rparr>"

text \<open>
  SQL's \<open>=\<close> on a nullable column holds only for two values that are not \<open>NULL\<close>, both in
  a \<open>WHERE\<close> clause and when \<open>UNIQUE(user_id, guild_id, set_code)\<close> looks for a
  conflicting row.
\<close>

definition sql_eq :: "'a option \<Rightarrow> 'a option \<Rightarrow> bool" where
  "sql_eq a b = (case (a, b) of (Some x, Some y) \<Rightarrow> x = y | _ \<Rightarrow> False)"

definition same_watch :: "int \<Rightarrow> int option \<Rightarrow> string \<Rightarrow> watched_set \<Rightarrow> bool" where
  "same_watch user guild set_code r =
     (user_id r = user \<and> sql_eq (guild_id r) guild \<and> watch_set_code r = set_code)"

text \<open>\<open>INSERT OR IGNORE INTO watched_sets ... VALUES (?, ?, ?, NULL, NULL)\<close> at time \<open>t\<close>\<close>

definition insert_or_ignore ::
    "int \<Rightarrow> int option \<Rightarrow> string \<Rightarrow> real \<Rightarrow> database \<Rightarrow> database" where
  "insert_or_ignore user guild set_code t d =
     (if list_ex (same_watch user guild set_code) (watched_sets d) then d
      else \<lparr>watched_sets = watched_sets d @
               [\<lparr>watch_id = Suc (last_rowid d), user_id = user, guild_id = guild,
                 watch_set_code = set_code, last_status = None,
                 last_button_detected = None, last_checked = None, created_at = t\<rparr>],
            last_rowid = Suc (last_rowid d)\<rparr>)"

definition add_watch ::
    "int \<Rightarrow> string \<Rightarrow> int option \<Rightarrow> real \<Rightarrow> database \<Rightarrow> bool \<times> database" where
  "add_watch user set_code guild t d =
     (let d1 = insert_or_ignore user guild set_code t d;
          result = length (filter (same_watch user guild set_code) (watched_sets d1))
      in (result > 0, d1))"


section \<open>The monitor\<close>






section \<open>Observing a run\<close>

text \<open>
  \<open>paced d qs\<close>: in the log \<open>qs\<close>, every request starts at least \<open>d\<close> seconds after the
  request before it has ended.
\<close>

fun paced :: "real \<Rightarrow> request list \<Rightarrow> bool" where
  "paced d (a # b # qs) = (finished a + d \<le> started b \<and> paced d (b # qs))"
| "paced d qs = True"

text \<open>
  \<open>page_obtained q\<close>: the request \<open>q\<close> fetched a product page, that is, it was made for a
  product page and was answered by a response that \<open>raise_for_status\<close> accepts and that the
  parser turned into a document.
\<close>

definition page_obtained :: "request \<Rightarrow> bool" where
  "page_obtained q =
     (purpose q = ProductPage \<and>
      (case answer q of
         Inl e \<Rightarrow> False
       | Inr r \<Rightarrow> raise_for_status r = None \<and> (case content r of Inl e \<Rightarrow> False | Inr sp \<Rightarrow> True)))"

text \<open>The requests made between the states \<open>w\<close> and \<open>w'\<close>.\<close>

definition requests_since :: "checker \<Rightarrow> checker \<Rightarrow> request list" where
  "requests_since w w' = drop (length (requests w)) (requests w')"

section \<open>Example inputs\<close>

text \<open>
  Four product pages: one whose availability tag says \<open>InStock\<close> while its text says
  sold out; one without the add-to-bag container; one whose container holds an express
  checkout button in front of the pre-order button; and one with a plain add-to-bag button.
\<close>

definition sold_out_page :: soup where
  "sold_out_page =
     \<lparr>get_text = ''Sold out'', sticky_container = None,
      availability_meta = Some (Some ''InStock''), select_one = (\<lambda>selector. None),
      a_hrefs = []\<rparr>"

definition bare_page :: soup where
  "bare_page =
     \<lparr>get_text = ''Add to Bag'', sticky_container = None,
      availability_meta = None, select_one = (\<lambda>selector. None), a_hrefs = []\<rparr>"

definition express_page :: soup where
  "express_page =
     \<lparr>get_text = ''Buy'',
      sticky_container =
        Some [\<lparr>button_text = ''Buy now'', aria_label = Some ''Express checkout'', data_test = None\<rparr>,
              \<lparr>button_text = ''Pre-order'', aria_label = None, data_test = None\<rparr>],
      availability_meta = None, select_one = (\<lambda>selector. None), a_hrefs = []\<rparr>"




definition serving_web :: "soup \<Rightarrow> web" where
  "serving_web sp n u =
     \<lparr>duration = 1,
      outcome = Inr \<lparr>status_code = 200, reason = ''OK'', response_url = u, content = Inr sp\<rparr>\<rparr>"

definition blocking_web :: "nat list \<Rightarrow> web" where
  "blocking_web blocked n u =
     (if n \<in> set blocked
      then \<lparr>duration = 1,
            outcome = Inr \<lparr>status_code = 403, reason = ''Forbidden'', response_url = u,
                           content = Inr bare_page\<rparr>\<rparr>
      else serving_web bare_page n u)"

text \<open>
  A checker that has made no request yet, a watch of set 10312 with a given last status
  and last button, and a monitor whose repository holds just that watch.
\<close>

definition idle_checker :: checker where
  "idle_checker =
     \<lparr>rate_limit_delay = 2, last_request_time = 0, session = 1, now = 1000, requests = []\<rparr>"



section \<open>Facts about the classifier\<close>

lemma lower_guard: "(if s \<noteq> [] then lower s else []) = lower s"
  by (simp add: lower_def)

lemma str_in_single: "str_in [c] s \<longleftrightarrow> c \<in> set s"
  by (induction s) auto

lemma meta_tier_result:
  "meta_tier sp c b = Some r \<Longrightarrow> status r \<noteq> error \<and> button_detected r = b"
  by (auto simp add: meta_tier_def Let_def split: if_splits)

lemma text_tier_result:
  "status (text_tier sp b) \<noteq> error \<and> button_detected (text_tier sp b) = b"
  by (simp add: text_tier_def Let_def)

lemma classifier_status: "status (check_stock_status sp) \<noteq> error"
  using meta_tier_result text_tier_result
  by (auto simp add: check_stock_status_def Let_def split: option.splits)

lemma classifier_button:
  "button_detected (check_stock_status sp) = detect_button sp"
  using meta_tier_result text_tier_result
  by (auto simp add: check_stock_status_def Let_def split: option.splits)

lemma x_skip_keyword: "''x'' \<in> set skip_keywords"
  by (simp add: skip_keywords_def)

lemma skip_x:
  assumes "str_in ''x'' (lower (button_text b)) \<or> str_in ''x'' (lower (attr_get (aria_label b) ''''))"
  shows "detect_loop (b # bs) = detect_loop bs"
proof -
  have "list_ex (\<lambda>keyword. str_in keyword (lower (button_text b))
                            \<or> str_in keyword (lower (attr_get (aria_label b) ''''))) skip_keywords"
    unfolding list_ex_iff using assms x_skip_keyword by blast
  then show ?thesis
    by (simp add: Let_def lower_guard)
qed

lemma detect_loop_skips:
  assumes "str_in ''x'' (lower (button_text b)) \<or> str_in ''x'' (lower (attr_get (aria_label b) ''''))"
  shows "detect_loop (before @ b # after) = detect_loop (before @ after)"
proof (induction before)
  case Nil
  show ?case using skip_x[OF assms] by simp
next
  case (Cons a before)
  then show ?case
    by (simp add: Let_def)
qed

lemma detect_loop_step:
  "detect_loop (b # bs) = detect_loop bs
   \<or> \<not> list_ex (\<lambda>keyword. str_in keyword (lower (button_text b))
                            \<or> str_in keyword (lower (attr_get (aria_label b) ''''))) skip_keywords
     \<and> (detect_loop (b # bs) = Some (button_text b)
        \<or> detect_loop (b # bs) = Some (attr_get (aria_label b) ''''))"
  by (simp add: Let_def lower_guard)

lemma detect_loop_no_x:
  "detect_loop bs = Some label \<Longrightarrow> \<not> str_in ''x'' (lower label)"
proof (induction bs)
  case Nil
  then show ?case by simp
next
  case (Cons b bs)
  from detect_loop_step[of b bs] show ?case
  proof (elim disjE conjE)
    assume "detect_loop (b # bs) = detect_loop bs"
    with Cons show ?thesis by simp
  next
    assume ns: "\<not> list_ex (\<lambda>keyword. str_in keyword (lower (button_text b))
                            \<or> str_in keyword (lower (attr_get (aria_label b) ''''))) skip_keywords"
      and "detect_loop (b # bs) = Some (button_text b)"
    with Cons.prems have "label = button_text b" by simp
    with ns x_skip_keyword show ?thesis unfolding list_ex_iff by blast
  next
    assume ns: "\<not> list_ex (\<lambda>keyword. str_in keyword (lower (button_text b))
                            \<or> str_in keyword (lower (attr_get (aria_label b) ''''))) skip_keywords"
      and "detect_loop (b # bs) = Some (attr_get (aria_label b) '''')"
    with Cons.prems have "label = attr_get (aria_label b) ''''" by simp
    with ns x_skip_keyword show ?thesis unfolding list_ex_iff by blast
  qed
qed

section \<open>Properties of the classifier\<close>

text \<open>
  C2. Whenever the \<open>product:availability\<close> tag is there and its content, in lower case,
  contains \<open>in stock\<close> or \<open>instock\<close>, the classifier answers \<open>in_stock\<close> with
  \<open>available = True\<close>, whatever the text of the page says.
\<close>

theorem meta_in_stock_wins:
  assumes "availability_meta sp = Some content_attr"
    and "str_in ''in stock'' (lower (attr_get content_attr ''''))
         \<or> str_in ''instock'' (lower (attr_get content_attr ''''))"
  shows "status (check_stock_status sp) = in_stock \<and> available (check_stock_status sp) = True"
  using assms by (simp add: check_stock_status_def meta_tier_def Let_def)

theorem meta_in_stock_wins_witness:
  "availability_meta sold_out_page = Some (Some ''InStock'')
   \<and> str_in ''instock'' (lower (attr_get (Some ''InStock'') ''''))
   \<and> str_in ''sold out'' (lower (get_text sold_out_page))
   \<and> status (check_stock_status sold_out_page) = in_stock
   \<and> available (check_stock_status sold_out_page) = True"
  using meta_in_stock_wins[of sold_out_page "Some ''InStock''"]
  by (simp add: sold_out_page_def lower_def lower_char_def attr_get_def)

text \<open>
  C9. When the document has no add-to-bag sticky container, the classifier reports no
  button, whatever status it finds.
\<close>

theorem no_container_no_button:
  assumes "sticky_container sp = None"
  shows "button_detected (check_stock_status sp) = None"
  using assms by (simp add: classifier_button detect_button_def)

theorem no_container_no_button_witness:
  "sticky_container bare_page = None
   \<and> status (check_stock_status bare_page) = in_stock
   \<and> button_detected (check_stock_status bare_page) = None"
  using no_container_no_button[of bare_page]
  by (simp add: bare_page_def check_stock_status_def text_tier_def lower_def lower_char_def)

text \<open>
  C10. A button of the container whose text or \<open>aria-label\<close> contains the letter x, in
  either case, is skipped: the detection answers as if the button were not there. So the
  label the detection returns never contains an x. (By \<open>str_in_single\<close>,
  \<open>str_in ''x'' s\<close> says that the character x occurs somewhere in \<open>s\<close>.)
\<close>

theorem detect_button_skips_x:
  assumes "sticky_container sp = Some (before @ b # after)"
    and "str_in ''x'' (lower (button_text b))
         \<or> str_in ''x'' (lower (attr_get (aria_label b) ''''))"
  shows "detect_button sp = detect_loop (before @ after)
         \<and> (\<forall>label. detect_button sp = Some label \<longrightarrow> \<not> str_in ''x'' (lower label))"
proof -
  have "detect_button sp = detect_loop (before @ b # after)"
    using assms(1) by (simp add: detect_button_def)
  then have "detect_button sp = detect_loop (before @ after)"
    using detect_loop_skips[OF assms(2)] by simp
  then show ?thesis using detect_loop_no_x by simp
qed

theorem detect_button_skips_x_witness:
  "sticky_container express_page =
     Some ([] @ \<lparr>button_text = ''Buy now'', aria_label = Some ''Express checkout'', data_test = None\<rparr>
              # [\<lparr>button_text = ''Pre-order'', aria_label = None, data_test = None\<rparr>])
   \<and> str_in ''x'' (lower (attr_get (Some ''Express checkout'') ''''))
   \<and> detect_button express_page = Some ''Pre-order''"
  using detect_button_skips_x[of express_page "[]"
      "\<lparr>button_text = ''Buy now'', aria_label = Some ''Express checkout'', data_test = None\<rparr>"
      "[\<lparr>button_text = ''Pre-order'', aria_label = None, data_test = None\<rparr>]"]
  by (simp add: express_page_def lower_def lower_char_def attr_get_def Let_def
        skip_keywords_def purchase_keywords_def)

section \<open>Facts about the requests of the checker\<close>

lemma rate_limit_returns:
  "\<exists>w1. rate_limit w = (Inr (), w1) \<and> requests w1 = requests w"
  by (simp add: rate_limit_def time_sleep_def Let_def)

lemma session_get_log:
  assumes "session_get web p u w = (x, w')"
  shows "\<exists>q. requests w' = requests w @ [q] \<and> purpose q = p \<and> request_url q = u \<and> answer q = x"
  using assms by (auto simp add: session_get_def Let_def)

lemma initialize_session_log:
  "\<exists>w' q. initialize_session web w = (Inr (), w') \<and> requests w' = requests w @ [q]
          \<and> purpose q = Warmup \<and> request_url q = BASE_URL"
proof -
  obtain x w1 where g: "session_get web Warmup BASE_URL w = (x, w1)"
    by (cases "session_get web Warmup BASE_URL w")
  from session_get_log[OF g] obtain q where
    "requests w1 = requests w @ [q]" "purpose q = Warmup" "request_url q = BASE_URL" by blast
  moreover have "initialize_session web w = (Inr (), w1)"
    using g by (cases x) (simp_all add: initialize_session_def)
  ultimately show ?thesis by blast
qed

lemma forbidden_not_obtained:
  "answer q = Inr r \<Longrightarrow> status_code r = 403 \<Longrightarrow> \<not> page_obtained q"
  by (simp add: page_obtained_def raise_for_status_def)

lemma warmup_not_obtained: "purpose q = Warmup \<Longrightarrow> \<not> page_obtained q"
  by (simp add: page_obtained_def)


lemma get_with_retry_log:
  assumes "get_with_retry web u w = (x, w')"
  shows "\<exists>old q. requests w' = requests w @ old @ [q] \<and> answer q = x
           \<and> purpose q = ProductPage \<and> request_url q = u
           \<and> \<not> list_ex page_obtained old
           \<and> list_all (\<lambda>a. request_url a = u \<or> request_url a = BASE_URL) old
           \<and> list_all (\<lambda>a. purpose a \<noteq> Search) old"
proof -
  obtain x1 w1 where g1: "session_get web ProductPage u w = (x1, w1)"
    by (cases "session_get web ProductPage u w")
  from session_get_log[OF g1] obtain q1 where
    q1: "requests w1 = requests w @ [q1]" "purpose q1 = ProductPage" "request_url q1 = u"
        "answer q1 = x1" by blast
  show ?thesis
  proof (cases x1)
    case (Inl e)
    with assms g1 have "x = x1" "w' = w1" by (simp_all add: get_with_retry_def)
    with q1 have "requests w' = requests w @ [] @ [q1] \<and> answer q1 = x
           \<and> purpose q1 = ProductPage \<and> request_url q1 = u
           \<and> \<not> list_ex page_obtained [] \<and> list_all (\<lambda>a. request_url a = u \<or> request_url a = BASE_URL) []
           \<and> list_all (\<lambda>a. purpose a \<noteq> Search) []"
      by simp
    then show ?thesis by blast
  next
    case (Inr first)
    show ?thesis
    proof (cases "status_code first = 403")
      case False
      with assms g1 Inr have "x = x1" "w' = w1" by (simp_all add: get_with_retry_def)
      with q1 have "requests w' = requests w @ [] @ [q1] \<and> answer q1 = x
           \<and> purpose q1 = ProductPage \<and> request_url q1 = u
           \<and> \<not> list_ex page_obtained [] \<and> list_all (\<lambda>a. request_url a = u \<or> request_url a = BASE_URL) []
           \<and> list_all (\<lambda>a. purpose a \<noteq> Search) []"
        by simp
      then show ?thesis by blast
    next
      case True
      obtain w2 q2 where i: "initialize_session web (create_scraper w1) = (Inr (), w2)"
        and q2: "requests w2 = requests (create_scraper w1) @ [q2]" "purpose q2 = Warmup"
                "request_url q2 = BASE_URL"
        using initialize_session_log by blast
      have r1: "requests (create_scraper w1) = requests w1" by (simp add: create_scraper_def)
      from assms g1 Inr True i have g3: "session_get web ProductPage u w2 = (x, w')"
        by (simp add: get_with_retry_def)
      from session_get_log[OF g3] obtain q3 where
        q3: "requests w' = requests w2 @ [q3]" "purpose q3 = ProductPage" "request_url q3 = u"
            "answer q3 = x" by blast
      have "\<not> page_obtained q1" using forbidden_not_obtained q1(4) Inr True by blast
      moreover have "\<not> page_obtained q2" using warmup_not_obtained q2(2) by blast
      ultimately have "requests w' = requests w @ [q1, q2] @ [q3] \<and> answer q3 = x
           \<and> purpose q3 = ProductPage \<and> request_url q3 = u
           \<and> \<not> list_ex page_obtained [q1, q2]
           \<and> list_all (\<lambda>a. request_url a = u \<or> request_url a = BASE_URL) [q1, q2]
           \<and> list_all (\<lambda>a. purpose a \<noteq> Search) [q1, q2]"
        using q1 q2 q3 r1 by simp
      then show ?thesis by blast
    qed
  qed
qed

lemma read_response_obtained:
  "answer q = Inr r \<Longrightarrow> purpose q = ProductPage \<Longrightarrow>
   page_obtained q \<longleftrightarrow> (\<exists>res. read_response u c r = Inr res)"
  by (simp add: page_obtained_def read_response_def Let_def split: option.splits sum.splits)

lemma read_response_status:
  "read_response u c r = Inr res \<Longrightarrow> status res \<noteq> error \<and> url res = u"
  by (auto simp add: read_response_def Let_def classifier_status split: option.splits sum.splits)

lemma fetch_try_log:
  assumes "fetch_try web u c w = (x, w')"
  shows "\<exists>new. requests w' = requests w @ new
           \<and> (list_ex page_obtained new \<longleftrightarrow> (\<exists>res. x = Inr res))
           \<and> (\<forall>res. x = Inr res \<longrightarrow> status res \<noteq> error \<and> url res = u)
           \<and> list_all (\<lambda>a. request_url a = u \<or> request_url a = BASE_URL) new
           \<and> list_all (\<lambda>a. purpose a \<noteq> Search) new"
proof -
  obtain y w1 where g: "get_with_retry web u w = (y, w1)"
    by (cases "get_with_retry web u w")
  from get_with_retry_log[OF g] obtain old q where
    l: "requests w1 = requests w @ old @ [q]" "answer q = y" "purpose q = ProductPage"
       "request_url q = u" "\<not> list_ex page_obtained old"
       "list_all (\<lambda>a. request_url a = u \<or> request_url a = BASE_URL) old"
       "list_all (\<lambda>a. purpose a \<noteq> Search) old"
    by blast
  show ?thesis
  proof (cases y)
    case (Inl e)
    with assms g have "x = Inl e" "w' = w1" by (simp_all add: fetch_try_def)
    moreover have "\<not> page_obtained q" using l(2) Inl by (simp add: page_obtained_def)
    ultimately have "requests w' = requests w @ (old @ [q])
           \<and> (list_ex page_obtained (old @ [q]) \<longleftrightarrow> (\<exists>res. x = Inr res))
           \<and> (\<forall>res. x = Inr res \<longrightarrow> status res \<noteq> error \<and> url res = u)
           \<and> list_all (\<lambda>a. request_url a = u \<or> request_url a = BASE_URL) (old @ [q])
           \<and> list_all (\<lambda>a. purpose a \<noteq> Search) (old @ [q])"
      using l by simp
    then show ?thesis by blast
  next
    case (Inr r)
    with assms g have x: "x = read_response u c r" "w' = w1" by (simp_all add: fetch_try_def)
    have "page_obtained q \<longleftrightarrow> (\<exists>res. x = Inr res)"
      using read_response_obtained[of q r u c] l(2,3) Inr x(1) by simp
    moreover have "\<forall>res. x = Inr res \<longrightarrow> status res \<noteq> error \<and> url res = u"
      using read_response_status[of u c r] x(1) by auto
    ultimately have "requests w' = requests w @ (old @ [q])
           \<and> (list_ex page_obtained (old @ [q]) \<longleftrightarrow> (\<exists>res. x = Inr res))
           \<and> (\<forall>res. x = Inr res \<longrightarrow> status res \<noteq> error \<and> url res = u)
           \<and> list_all (\<lambda>a. request_url a = u \<or> request_url a = BASE_URL) (old @ [q])
           \<and> list_all (\<lambda>a. purpose a \<noteq> Search) (old @ [q])"
      using l x(2) by simp
    then show ?thesis by blast
  qed
qed

lemma fetch_product_page_spec:
  "\<exists>r w' new. fetch_product_page web u c w = (Inr r, w') \<and> requests w' = requests w @ new
     \<and> (status r \<noteq> error \<longleftrightarrow> list_ex page_obtained new)
     \<and> (status r = error \<longrightarrow> \<not> available r \<and> button_detected r = None)
     \<and> url r = u
     \<and> list_all (\<lambda>a. request_url a = u \<or> request_url a = BASE_URL) new
     \<and> list_all (\<lambda>a. purpose a \<noteq> Search) new"
proof -
  obtain w1 where rl: "rate_limit w = (Inr (), w1)" "requests w1 = requests w"
    using rate_limit_returns by blast
  obtain x w2 where t: "fetch_try web u c w1 = (x, w2)"
    by (cases "fetch_try web u c w1")
  from fetch_try_log[OF t] obtain new where
    l: "requests w2 = requests w1 @ new"
       "list_ex page_obtained new \<longleftrightarrow> (\<exists>res. x = Inr res)"
       "\<forall>res. x = Inr res \<longrightarrow> status res \<noteq> error \<and> url res = u"
       "list_all (\<lambda>a. request_url a = u \<or> request_url a = BASE_URL) new"
       "list_all (\<lambda>a. purpose a \<noteq> Search) new"
    by blast
  show ?thesis
  proof (cases x)
    case (Inr res)
    then have "fetch_product_page web u c w = (Inr res, w2)"
      using rl t by (simp add: fetch_product_page_def)
    moreover have "status res \<noteq> error" "url res = u" using l(3) Inr by auto
    moreover have "list_ex page_obtained new" using l(2) Inr by simp
    ultimately show ?thesis using l(1,4,5) rl(2) by auto
  next
    case (Inl e)
    obtain error_msg where e: "e = Exn error_msg" by (cases e)
    have no: "\<not> list_ex page_obtained new" using l(2) Inl by simp
    obtain res where res: "fetch_product_page web u c w = (Inr res, w2)"
      "status res = error" "\<not> available res" "button_detected res = None" "url res = u"
      using rl t Inl e by (cases "str_in ''403'' error_msg \<or> str_in ''Forbidden'' error_msg")
        (simp_all add: fetch_product_page_def)
    then show ?thesis using l(1,4,5) rl(2) no by auto
  qed
qed





lemma candidate_urls_differ:
  "BASE_URL @ ''/product/'' @ c \<noteq> BASE_URL @ ''/en-us/product/'' @ c"
  "BASE_URL @ ''/product/'' @ c \<noteq> BASE_URL @ ''/en-us/product/lego-set-'' @ c"
  "BASE_URL @ ''/product/'' @ c \<noteq> BASE_URL"
  by simp_all

text \<open>The runs of the checker on the example webs.\<close>

lemmas run_defs =
  check_stock_def strip_def is_space_def get_product_urls_def BASE_URL_def
  fetch_product_page_def rate_limit_def time_sleep_def fetch_try_def get_with_retry_def
  read_response_def raise_for_status_def initialize_session_def create_scraper_def
  session_get_def search_for_set_def search_try_def idle_checker_def Let_def

lemmas page_defs =
  check_stock_status_def text_tier_def meta_tier_def detect_button_def lower_def
  lower_char_def attr_get_def skip_keywords_def purchase_keywords_def extract_set_name_def
  extract_price_def



lemma blocked_then_served:
  "fst (fetch_product_page (blocking_web [0, 2]) ''https://www.lego.com/en-us/product/10312''
          ''10312'' idle_checker) =
     Inr \<lparr>available = False, status = error,
          message = ''403 Forbidden: LEGO.com is blocking automated requests. Please try again later.'',
          button_detected = None, set_name = ''Set 10312'', price = None,
          url = ''https://www.lego.com/en-us/product/10312''\<rparr>"
  "fst (fetch_product_page (blocking_web [0, 2])
          ''https://www.lego.com/en-us/product/lego-set-10312'' ''10312''
          (snd (fetch_product_page (blocking_web [0, 2])
                  ''https://www.lego.com/en-us/product/10312'' ''10312'' idle_checker))) =
     Inr \<lparr>available = True, status = in_stock, message = ''In Stock'',
          button_detected = None, set_name = ''LEGO Set 10312'', price = None,
          url = ''https://www.lego.com/en-us/product/lego-set-10312''\<rparr>"
  by (simp_all add: run_defs page_defs blocking_web_def serving_web_def bare_page_def)

lemma blocked_log:
  "map (\<lambda>q. (purpose q, request_url q, started q, finished q))
       (requests (snd (check_stock (blocking_web [0, 2]) ''10312'' idle_checker))) =
     [(ProductPage, ''https://www.lego.com/en-us/product/10312'', 1000, 1001),
      (Warmup, ''https://www.lego.com'', 1001, 1002),
      (ProductPage, ''https://www.lego.com/en-us/product/10312'', 1002, 1003),
      (ProductPage, ''https://www.lego.com/en-us/product/lego-set-10312'', 1003, 1004)]"
  by (simp add: run_defs page_defs blocking_web_def serving_web_def bare_page_def)

section \<open>Properties of the stock checker\<close>





text \<open>
  C3. When the fetch of the first candidate URL ends in the 403 error result and the fetch
  of the second candidate URL gives a result that is not an error, \<open>check_stock\<close> returns
  that result and stops in the state the second fetch left: no request goes to the third
  candidate URL, and none is a search.
\<close>

theorem second_candidate_wins:
  assumes "get_product_urls (strip code) = [url1, url2, url3]"
    and "fetch_product_page web url1 (strip code) w = (Inr r1, w1)"
    and "status r1 = error"
    and "str_in ''403'' (message r1) \<or> str_in ''Forbidden'' (message r1)"
    and "fetch_product_page web url2 (strip code) w1 = (Inr r2, w2)"
    and "status r2 \<noteq> error"
  shows "check_stock web code w = (Inr r2, w2)
         \<and> list_all (\<lambda>q. request_url q \<noteq> url3 \<and> purpose q \<noteq> Search) (requests_since w w2)"
proof -
  have "try_urls web (strip code) [url1, url2, url3] w = (Inr (Some r2), w2)"
    using assms(2,3,5,6) by simp
  then have run: "check_stock web code w = (Inr r2, w2)"
    using assms(1) by (simp add: check_stock_def Let_def)
  from fetch_product_page_spec[of web url1 "strip code" w] assms(2) obtain new1 where
    n1: "requests w1 = requests w @ new1"
        "list_all (\<lambda>a. request_url a = url1 \<or> request_url a = BASE_URL) new1"
        "list_all (\<lambda>a. purpose a \<noteq> Search) new1"
    by auto
  from fetch_product_page_spec[of web url2 "strip code" w1] assms(5) obtain new2 where
    n2: "requests w2 = requests w1 @ new2"
        "list_all (\<lambda>a. request_url a = url2 \<or> request_url a = BASE_URL) new2"
        "list_all (\<lambda>a. purpose a \<noteq> Search) new2"
    by auto
  have since: "requests_since w w2 = new1 @ new2"
    using n1(1) n2(1) by (simp add: requests_since_def)
  have u: "url3 \<noteq> url1" "url3 \<noteq> url2" "url3 \<noteq> BASE_URL"
    using assms(1) candidate_urls_differ[of "strip code"]
    by (auto simp add: get_product_urls_def)
  have "list_all (\<lambda>q. request_url q \<noteq> url3 \<and> purpose q \<noteq> Search) (new1 @ new2)"
    using n1(2,3) n2(2,3) u by (auto simp add: list_all_iff)
  then show ?thesis using run since by simp
qed

theorem second_candidate_wins_witness:
  "fst (check_stock (blocking_web [0, 2]) ''10312'' idle_checker) =
     Inr \<lparr>available = True, status = in_stock, message = ''In Stock'',
          button_detected = None, set_name = ''LEGO Set 10312'', price = None,
          url = ''https://www.lego.com/en-us/product/lego-set-10312''\<rparr>
   \<and> list_all (\<lambda>q. request_url q \<noteq> ''https://www.lego.com/product/10312'' \<and> purpose q \<noteq> Search)
        (requests_since idle_checker
           (snd (check_stock (blocking_web [0, 2]) ''10312'' idle_checker)))
   \<and> map request_url (requests (snd (check_stock (blocking_web [0, 2]) ''10312'' idle_checker))) =
     [''https://www.lego.com/en-us/product/10312'', ''https://www.lego.com'',
      ''https://www.lego.com/en-us/product/10312'',
      ''https://www.lego.com/en-us/product/lego-set-10312'']"
proof -
  let ?web = "blocking_web [0, 2]"
  let ?u1 = "''https://www.lego.com/en-us/product/10312''"
  let ?u2 = "''https://www.lego.com/en-us/product/lego-set-10312''"
  let ?u3 = "''https://www.lego.com/product/10312''"
  let ?r1 = "\<lparr>available = False, status = error,
          message = ''403 Forbidden: LEGO.com is blocking automated requests. Please try again later.'',
          button_detected = None, set_name = ''Set 10312'', price = None, url = ?u1\<rparr>"
  let ?r2 = "\<lparr>available = True, status = in_stock, message = ''In Stock'',
          button_detected = None, set_name = ''LEGO Set 10312'', price = None, url = ?u2\<rparr>"
  let ?w1 = "snd (fetch_product_page ?web ?u1 ''10312'' idle_checker)"
  let ?w2 = "snd (fetch_product_page ?web ?u2 ''10312'' ?w1)"
  have c: "strip ''10312'' = ''10312''" by (simp add: strip_def is_space_def)
  have urls: "get_product_urls (strip ''10312'') = [?u1, ?u2, ?u3]"
    by (simp add: c get_product_urls_def BASE_URL_def)
  have f1: "fetch_product_page ?web ?u1 (strip ''10312'') idle_checker = (Inr ?r1, ?w1)"
    using blocked_then_served(1) by (simp add: c prod_eq_iff)
  have f2: "fetch_product_page ?web ?u2 (strip ''10312'') ?w1 = (Inr ?r2, ?w2)"
    using blocked_then_served(2) by (simp add: c prod_eq_iff)
  have s1: "status ?r1 = error" by simp
  have m1: "str_in ''403'' (message ?r1) \<or> str_in ''Forbidden'' (message ?r1)" by simp
  have s2: "status ?r2 \<noteq> error" by simp
  from second_candidate_wins[OF urls f1 s1 m1 f2 s2]
  have "check_stock ?web ''10312'' idle_checker = (Inr ?r2, ?w2)"
    and "list_all (\<lambda>q. request_url q \<noteq> ?u3 \<and> purpose q \<noteq> Search) (requests_since idle_checker ?w2)"
    by simp_all
  moreover have "map request_url (requests (snd (check_stock ?web ''10312'' idle_checker))) =
     [?u1, ''https://www.lego.com'', ?u1, ?u2]"
    using arg_cong[OF blocked_log, of "map (\<lambda>t. fst (snd t))"] by (simp add: comp_def)
  ultimately show ?thesis by simp
qed

text \<open>
  C8. The spacing of the requests. A checker is constructed at time 1000 with a delay of
  2 seconds, and \<open>check_stock\<close> is called at once; every request takes one second and the
  first request for the product page is answered with a 403. The four requests follow
  each other without any pause: \<open>_rate_limit\<close> is called once per fetch, not before the
  warm-up request and the second request of the 403 branch, and it measures from the start
  of the fetch before, with \<open>last_request_time\<close> starting at 0.
\<close>

theorem retry_is_not_paced:
  "map (\<lambda>q. (purpose q, started q, finished q))
       (requests (snd (check_stock (blocking_web [1]) ''10312''
                         (new_checker (blocking_web [1]) 2 1000)))) =
     [(Warmup, 1000, 1001), (ProductPage, 1001, 1002), (Warmup, 1002, 1003),
      (ProductPage, 1003, 1004)]
   \<and> \<not> paced 2 (requests (snd (check_stock (blocking_web [1]) ''10312''
                                  (new_checker (blocking_web [1]) 2 1000))))"
  by (simp add: new_checker_def run_defs page_defs blocking_web_def serving_web_def bare_page_def)

section \<open>Properties of the watch repository\<close>

text \<open>
  C7. Adding the same watch twice. For a watch inside a guild the table keeps one row,
  but the second \<open>add_watch\<close> returns \<open>True\<close> like the first: the count it checks is
  positive whether or not the insert was ignored. For a watch without a guild the
  comparison with \<open>NULL\<close> never holds, so both calls return \<open>False\<close> and the table ends
  with two rows.
\<close>

theorem second_add_reports_success:
  "fst (add_watch 42 ''10312'' (Some 7) 60
          (snd (add_watch 42 ''10312'' (Some 7) 0 initialize))) = True
   \<and> length (watched_sets (snd (add_watch 42 ''10312'' (Some 7) 60
                                   (snd (add_watch 42 ''10312'' (Some 7) 0 initialize))))) = 1
   \<and> fst (add_watch 42 ''10312'' None 60
            (snd (add_watch 42 ''10312'' None 0 initialize))) = False
   \<and> length (watched_sets (snd (add_watch 42 ''10312'' None 60
                                   (snd (add_watch 42 ''10312'' None 0 initialize))))) = 2"
  by (simp add: add_watch_def insert_or_ignore_def same_watch_def sql_eq_def initialize_def
        Let_def)

section \<open>Properties of the monitor\<close>











end
